theory Spec2Isabelle
  imports Complex_Main
begin

section \<open>BusStopAlert: a shallow embedding of script.js\<close>

text \<open>
  The page tracks the distance between the user and a chosen bus station and alerts when
  the user is within \<open>ALERT_DISTANCE\<close> kilometres. The embedding follows
  \<^verbatim>\<open>src/script.js\<close> function by function.

  Conventions of the model.
  \<^item> A JavaScript number is modelled by the real number it denotes: the arithmetic is
    exact, and the rounding of IEEE doubles, the infinities and NaN are outside the model.
  \<^item> A JavaScript string is modelled by the list of the bytes of its UTF-8 encoding
    (\<open>string\<close>), so that the Hebrew literals of the source are written with
    their bytes.
  \<^item> The global variables of the script are the fields of one record, and every effect
    on the page, the audio element, the console and the host's timers is appended to a
    list of effects kept in that record.
  \<^item> An \<open>async\<close> function is modelled in two parts, up to its \<open>await\<close> and from the
    answer on; the answers of the host are events.

  The set-up of the map and of the sound (\<open>initMap\<close>, \<open>initAlertSound\<close>), the list
  of suggestions (\<open>displaySuggestions\<close>), \<open>selectStation\<close> and the wiring of the
  buttons are outside the model: the selected station is a field of the state that no
  modelled function changes.
\<close>

subsection \<open>Constants (line 14)\<close>

text \<open>
  The alert threshold in kilometres. The period of the polling timer
  (\<open>TRACKING_INTERVAL\<close>, 5000 ms) is real time and has no counterpart in the model:
  a timer that is set may fire at any moment.
\<close>

definition ALERT_DISTANCE :: real where
  "ALERT_DISTANCE = 5"

subsection \<open>Numbers as text\<close>

text \<open>
  \<open>Math.round\<close> returns the integer closest to its argument, the larger one at a tie.
\<close>

definition js_round :: "real \<Rightarrow> int" where
  "js_round x = \<lfloor>x + 1 / 2\<rfloor>"


definition digit_char :: "nat \<Rightarrow> char" where
  "digit_char d = ''0123456789'' ! (d mod 10)"

fun digits :: "nat \<Rightarrow> string" where
  "digits n = (if n < 10 then [digit_char n] else digits (n div 10) @ [digit_char (n mod 10)])"

text \<open>
  The conversion of an integral number to a string (a template literal applies it). An
  integer below \<open>2 ^ 53\<close> in magnitude prints as its decimal digits. Beyond, the host
  prints the shortest decimal that reads back as the same double, in exponent form from
  \<open>10 ^ 21\<close> on; that text depends on the double format, so it is the parameter
  \<open>host\<close> of the model.
\<close>

definition numberToString :: "(real \<Rightarrow> string) \<Rightarrow> int \<Rightarrow> string" where
  "numberToString host n =
     (if \<bar>n\<bar> < 2 ^ 53
      then (if n < 0 then ''-'' @ digits (nat (- n)) else digits (nat n))
      else host (real_of_int n))"

text \<open>
  \<open>x.toFixed(2)\<close>, after the language standard: the sign first; a magnitude from
  \<open>10 ^ 21\<close> on is printed as the plain conversion to a string prints it; otherwise
  let \<open>n\<close> be the integer for which \<open>n / 100\<close> is closest to the magnitude (the
  larger at a tie), pad its digits with zeros on the left to three characters at least,
  and put the point before the last two.
\<close>

definition toFixed2 :: "(real \<Rightarrow> string) \<Rightarrow> real \<Rightarrow> string" where
  "toFixed2 host x =
     (let s = (if x < 0 then ''-'' else '''');
          y = \<bar>x\<bar>
      in if 10 ^ 21 \<le> y then s @ host y
         else
           (let n = nat \<lfloor>y * 100 + 1 / 2\<rfloor>;
                m = digits n;
                m' = (if length m \<le> 2 then replicate (3 - length m) (CHR ''0'') @ m else m);
                k = length m'
            in s @ take (k - 2) m' @ ''.'' @ drop (k - 2) m'))"

subsection \<open>The Hebrew literals of the formatting functions\<close>

text \<open>The unit of \<open>formatDistance\<close> below one kilometre: a space and the word for metre.\<close>

definition meter_suffix :: string where
  "meter_suffix = [CHR '' '', CHR 0xD7, CHR 0x9E, CHR 0xD7, CHR 0x98, CHR 0xD7, CHR 0xA8]"

text \<open>The unit from one kilometre on: a space and the abbreviation for kilometre.\<close>

definition km_suffix :: string where
  "km_suffix = [CHR '' '', CHR 0xD7, CHR 0xA7, CHR 0x22, CHR 0xD7, CHR 0x9E]"






subsection \<open>formatDistance and calculateWalkingTime (lines 344-367)\<close>

definition formatDistance :: "(real \<Rightarrow> string) \<Rightarrow> real \<Rightarrow> string" where
  "formatDistance host km =
     (if km < 1 then numberToString host (js_round (km * 1000)) @ meter_suffix
      else toFixed2 host km @ km_suffix)"


subsection \<open>calculateDistance and toRad (lines 322-341)\<close>

definition toRad :: "real \<Rightarrow> real" where
  "toRad degrees = degrees * (pi / 180)"

text \<open>
  \<open>Math.atan2 y x\<close>: the angle of the point \<open>(x, y)\<close>, in \<open>(- pi, pi]\<close>, and
  \<open>0\<close> at the origin.
\<close>

definition atan2 :: "real \<Rightarrow> real \<Rightarrow> real" where
  "atan2 y x =
     (if 0 < x then arctan (y / x)
      else if x < 0 then (if 0 \<le> y then arctan (y / x) + pi else arctan (y / x) - pi)
      else if 0 < y then pi / 2
      else if y < 0 then - (pi / 2)
      else 0)"

definition calculateDistance :: "real \<Rightarrow> real \<Rightarrow> real \<Rightarrow> real \<Rightarrow> real" where
  "calculateDistance lat1 lon1 lat2 lon2 =
     (let R = 6371;
          dLat = toRad (lat2 - lat1);
          dLon = toRad (lon2 - lon1);
          a = sin (dLat / 2) * sin (dLat / 2)
              + cos (toRad lat1) * cos (toRad lat2) * sin (dLon / 2) * sin (dLon / 2);
          c = 2 * atan2 (sqrt a) (sqrt (1 - a));
          distance = R * c
      in distance)"

subsection \<open>The state of the page (lines 1-12) and its effects\<close>

text \<open>What \<open>getUserLocation\<close> stores in \<open>userLocation\<close> (lines 69-73).\<close>

record position =
  lat :: real
  lng :: real
  accuracy :: real

text \<open>What \<open>selectStation\<close> stores in \<open>selectedStation\<close> (lines 266-271).\<close>

record station =
  station_name :: string
  station_address :: string
  station_lat :: real
  station_lng :: real

text \<open>
  The ways \<open>getUserLocation\<close> rejects: no geolocation service (line 63), the three
  error codes of the service (lines 81-89), and any other code (the default message of
  line 79).
\<close>

datatype geo_error = Unsupported | PermissionDenied | PositionUnavailable | Timeout | OtherCode

text \<open>What a rejected promise or a thrown exception carries to a \<open>catch\<close>.\<close>

datatype failure = LocationError geo_error | TypeError

text \<open>The second argument of \<open>showStatus\<close>.\<close>

datatype severity = SevInfo | SevSuccess | SevWarning | SevError

text \<open>
  The first argument of \<open>showStatus\<close>: the Hebrew texts of the source, named by the
  line that shows them. \<open>MsgFailure\<close> is the \<open>message\<close> of a caught error (line 569).
\<close>

datatype status_message =
    MsgSearching
  | MsgFoundResults nat
  | MsgNoStations
  | MsgFoundStations nat
  | MsgSearchError
  | MsgAlertZoneReached
  | MsgSelectStationFirst
  | MsgTrackingStarted
  | MsgFailure failure
  | MsgTrackingStopped

text \<open>
  The effects of the script on its surroundings, in the order of the source:
  the status line, the console, the audio element and the notifications, the map, and
  the elements of the page that \<open>updateDistanceDisplay\<close>, \<open>startTracking\<close> and
  \<open>stopTracking\<close> write. An effect records that the script made the call; what the
  host then plays or shows is the host's matter. \<open>ShowStatus\<close> is one call of
  \<open>showStatus\<close> (lines 370-378), with the removal of the message three seconds later;
  \<open>DistanceText d\<close> stands for the two texts \<open>formatDistance d\<close> and
  \<open>calculateWalkingTime d\<close> that lines 411-412 write.
\<close>

datatype effect =
    ShowStatus status_message severity
  | ConsoleWarn string
  | ConsoleLog failure
  | ConsoleError failure
  | PlayAlertSound
  | ShowBrowserNotification
  | RequestNotificationPermission
  | ArmAlertSound
  | UserMarker position
  | DistanceText real
  | UserCoordinates position
  | StationCoordinates station
  | ResultsShown
  | AlertZone bool
  | RouteLine
  | TrackingControls bool
  | FitBounds

text \<open>
  The global variables that tracking reads and writes, and the part of the host they
  depend on: \<open>timers\<close> are the handles of the intervals that are set and not cleared,
  \<open>timersCreated\<close> counts the calls of \<open>setInterval\<close>, \<open>loadRequests\<close>,
  \<open>startRequests\<close> and \<open>tickRequests\<close> count the calls of \<open>getUserLocation\<close>
  made when the page is loaded, by \<open>startTracking\<close> and by the interval's callback that
  have not been answered yet, and \<open>effects\<close> is the list of the effects so far.
  \<open>None\<close> is \<open>null\<close>.
\<close>

record session =
  userLocation :: "position option"
  selectedStation :: "station option"
  trackingInterval :: "nat option"
  isTracking :: bool
  hasAlerted :: bool
  timers :: "nat set"
  timersCreated :: nat
  loadRequests :: nat
  startRequests :: nat
  tickRequests :: nat
  effects :: "effect list"

text \<open>
  The state once the page is loaded (lines 7-11 and 590-600): nothing is selected or
  tracked, and the request for a first position (line 598) is under way.
\<close>

definition initial :: session where
  "initial =
     \<lparr>userLocation = None, selectedStation = None, trackingInterval = None,
      isTracking = False, hasAlerted = False, timers = {}, timersCreated = 0,
      loadRequests = 1, startRequests = 0, tickRequests = 0, effects = []\<rparr>"

definition emit :: "effect \<Rightarrow> session \<Rightarrow> session" where
  "emit e s = s\<lparr>effects := effects s @ [e]\<rparr>"

definition showStatus :: "status_message \<Rightarrow> severity \<Rightarrow> session \<Rightarrow> session" where
  "showStatus message type s = emit (ShowStatus message type) s"

text \<open>
  A function of the script either returns or throws; either way it leaves a state.
\<close>

datatype outcome = Done session | Threw session

subsection \<open>getUserLocation and updateUserMarker (lines 60-124)\<close>

text \<open>
  \<open>getUserLocation\<close> asks the host for a position and returns a promise; the host
  answers later, with a position or with an error. The answer is an input of the model.
\<close>

datatype response = Located position | Failed geo_error

definition updateUserMarker :: "session \<Rightarrow> session" where
  "updateUserMarker s =
     (case userLocation s of None \<Rightarrow> s | Some p \<Rightarrow> emit (UserMarker p) s)"

text \<open>The success callback (lines 68-77), which runs before the promise resolves.\<close>

definition locationFound :: "position \<Rightarrow> session \<Rightarrow> session" where
  "locationFound p s = updateUserMarker (s\<lparr>userLocation := Some p\<rparr>)"

subsection \<open>updateDistanceDisplay and what it calls (lines 381-477)\<close>

definition drawRouteLine :: "session \<Rightarrow> session" where
  "drawRouteLine s =
     (if userLocation s = None \<or> selectedStation s = None then s else emit RouteLine s)"

text \<open>
  The audio element is created when the page is loaded, before a button can be clicked,
  so the tests of lines 444 and 492 for \<open>null\<close> do not fail while tracking:
  \<open>PlayAlertSound\<close> and \<open>ArmAlertSound\<close> record the calls of \<open>play\<close>. Whether the
  sound is heard and whether a notification appears (line 470 asks for the permission)
  is decided by the host.
\<close>

definition playAlertSound :: "session \<Rightarrow> session" where
  "playAlertSound s = emit PlayAlertSound s"

definition showBrowserNotification :: "session \<Rightarrow> session" where
  "showBrowserNotification s = emit ShowBrowserNotification s"

text \<open>
  Lines 411-412 write the distance and the walking time, lines 413-414 the coordinates of
  the user and of the station (reading a field of \<open>null\<close> throws a \<open>TypeError\<close>),
  lines 415-417 the time and the visibility of the results; then comes the alert zone
  (lines 420-437) and the route line.
\<close>

definition updateDistanceDisplay :: "real \<Rightarrow> session \<Rightarrow> outcome" where
  "updateDistanceDisplay distance s =
     (let s1 = emit (DistanceText distance) s
      in case userLocation s1 of
           None \<Rightarrow> Threw s1
         | Some u \<Rightarrow>
             (let s2 = emit (UserCoordinates u) s1
              in case selectedStation s2 of
                   None \<Rightarrow> Threw s2
                 | Some st \<Rightarrow>
                     (let s3 = emit ResultsShown (emit (StationCoordinates st) s2);
                          s4 =
                            (if distance \<le> ALERT_DISTANCE
                             then
                               (let s5 = emit (AlertZone True) s3
                                in if \<not> hasAlerted s5
                                   then
                                     showBrowserNotification
                                       (showStatus MsgAlertZoneReached SevWarning
                                         ((playAlertSound s5)\<lparr>hasAlerted := True\<rparr>))
                                   else s5)
                             else (emit (AlertZone False) s3)\<lparr>hasAlerted := False\<rparr>)
                      in Done (drawRouteLine s4))))"

subsection \<open>startTracking and stopTracking (lines 479-587)\<close>

definition requestNotificationPermission :: "session \<Rightarrow> session" where
  "requestNotificationPermission s = emit RequestNotificationPermission s"

definition armAlertSound :: "session \<Rightarrow> session" where
  "armAlertSound s = emit ArmAlertSound s"

text \<open>
  \<open>setInterval\<close> returns a handle that no earlier call returned, greater than zero,
  and the host keeps the timer until \<open>clearInterval\<close> is called with the handle.
\<close>

definition setInterval :: "session \<Rightarrow> nat \<times> session" where
  "setInterval s =
     (let h = Suc (timersCreated s)
      in (h, s\<lparr>timers := insert h (timers s), timersCreated := h\<rparr>))"

definition clearInterval :: "nat \<Rightarrow> session \<Rightarrow> session" where
  "clearInterval h s = s\<lparr>timers := timers s - {h}\<rparr>"

text \<open>
  \<open>startTracking\<close> up to its \<open>await\<close> (lines 510-525): without a station it shows a
  message and returns; otherwise it arms the sound, asks for the permission to notify,
  and calls \<open>getUserLocation\<close>.
\<close>

definition startTracking :: "session \<Rightarrow> session" where
  "startTracking s =
     (if selectedStation s = None then showStatus MsgSelectStationFirst SevError s
      else
        (let s1 = armAlertSound s;
             s2 = requestNotificationPermission s1
         in s2\<lparr>startRequests := startRequests s2 + 1\<rparr>))"

text \<open>
  The distance between the two globals, as both callers compute it (lines 533-538 and
  553-558); a \<open>null\<close> global throws.
\<close>

definition currentDistance :: "session \<Rightarrow> real option" where
  "currentDistance s =
     (case userLocation s of
        None \<Rightarrow> None
      | Some u \<Rightarrow>
          (case selectedStation s of
             None \<Rightarrow> None
           | Some st \<Rightarrow> Some (calculateDistance (lat u) (lng u) (station_lat st) (station_lng st))))"

text \<open>
  \<open>startTracking\<close> from the answer of the host on (lines 525-570). Every exception
  ends in the \<open>catch\<close> of line 568, which shows its message.
\<close>

definition startTracking_resume :: "response \<Rightarrow> session \<Rightarrow> session" where
  "startTracking_resume r s =
     (case r of
        Failed e \<Rightarrow> showStatus (MsgFailure (LocationError e)) SevError s
      | Located p \<Rightarrow>
          (let s1 = locationFound p s;
               s2 = emit (TrackingControls True) (s1\<lparr>isTracking := True\<rparr>)
           in case currentDistance s2 of
                None \<Rightarrow> showStatus (MsgFailure TypeError) SevError s2
              | Some distance \<Rightarrow>
                  (case updateDistanceDisplay distance s2 of
                     Threw s3 \<Rightarrow> showStatus (MsgFailure TypeError) SevError s3
                   | Done s3 \<Rightarrow>
                       (let s4 = emit FitBounds s3;
                            (h, s5) = setInterval s4;
                            s6 = s5\<lparr>trackingInterval := Some h\<rparr>
                        in showStatus MsgTrackingStarted SevSuccess s6))))"

text \<open>
  The callback of the interval (lines 549-564) up to its \<open>await\<close>, and from the answer
  on. Every exception ends in the \<open>catch\<close> of line 561, which writes it to the console.
\<close>

definition trackingTick :: "session \<Rightarrow> session" where
  "trackingTick s = s\<lparr>tickRequests := tickRequests s + 1\<rparr>"

definition trackingTick_resume :: "response \<Rightarrow> session \<Rightarrow> session" where
  "trackingTick_resume r s =
     (case r of
        Failed e \<Rightarrow> emit (ConsoleError (LocationError e)) s
      | Located p \<Rightarrow>
          (let s1 = locationFound p s
           in case currentDistance s1 of
                None \<Rightarrow> emit (ConsoleError TypeError) s1
              | Some distance \<Rightarrow>
                  (case updateDistanceDisplay distance s1 of
                     Threw s2 \<Rightarrow> emit (ConsoleError TypeError) s2
                   | Done s2 \<Rightarrow> s2)))"

text \<open>
  \<open>stopTracking\<close> (lines 574-587). The test of line 575 is a test for a truthy value:
  \<open>null\<close> and the number \<open>0\<close> fail it.
\<close>

definition stopTracking :: "session \<Rightarrow> session" where
  "stopTracking s =
     (let s1 =
            (case trackingInterval s of
               None \<Rightarrow> s
             | Some h \<Rightarrow>
                 if h \<noteq> 0 then (clearInterval h s)\<lparr>trackingInterval := None\<rparr> else s);
          s2 = s1\<lparr>isTracking := False, hasAlerted := False\<rparr>
      in showStatus MsgTrackingStopped SevInfo (emit (TrackingControls False) s2))"

text \<open>The request made when the page is loaded (lines 598-600), from the answer on.\<close>

definition pageLoad_resume :: "response \<Rightarrow> session \<Rightarrow> session" where
  "pageLoad_resume r s =
     (case r of
        Failed e \<Rightarrow> emit (ConsoleLog (LocationError e)) s
      | Located p \<Rightarrow> locationFound p s)"

subsection \<open>The event loop\<close>

text \<open>
  The host runs one task at a time: a click on the start or the stop button, a timer
  that fires (only one that is set), or the answer to a position request (only when one
  is under way). A task runs to its end, with the continuation of the \<open>await\<close> that the
  answer resolves. \<open>step\<close> is \<open>None\<close> for an event that cannot happen in the state.
\<close>

datatype event =
    ClickStart
  | ClickStop
  | TimerFires nat
  | LoadAnswer response
  | StartAnswer response
  | TickAnswer response

definition step :: "event \<Rightarrow> session \<Rightarrow> session option" where
  "step e s =
     (case e of
        ClickStart \<Rightarrow> Some (startTracking s)
      | ClickStop \<Rightarrow> Some (stopTracking s)
      | TimerFires h \<Rightarrow> if h \<in> timers s then Some (trackingTick s) else None
      | LoadAnswer r \<Rightarrow>
          if loadRequests s = 0 then None
          else Some (pageLoad_resume r (s\<lparr>loadRequests := loadRequests s - 1\<rparr>))
      | StartAnswer r \<Rightarrow>
          if startRequests s = 0 then None
          else Some (startTracking_resume r (s\<lparr>startRequests := startRequests s - 1\<rparr>))
      | TickAnswer r \<Rightarrow>
          if tickRequests s = 0 then None
          else Some (trackingTick_resume r (s\<lparr>tickRequests := tickRequests s - 1\<rparr>)))"

fun exec :: "event list \<Rightarrow> session \<Rightarrow> session option" where
  "exec [] s = Some s"
| "exec (e # es) s = (case step e s of None \<Rightarrow> None | Some s' \<Rightarrow> exec es s')"

text \<open>How often an effect has occurred.\<close>

definition occurrences :: "effect \<Rightarrow> session \<Rightarrow> nat" where
  "occurrences e s = length (filter (\<lambda>x. x = e) (effects s))"

text \<open>Feeding a sequence of distances to \<open>updateDistanceDisplay\<close>, up to the first throw.\<close>

fun feed :: "real list \<Rightarrow> session \<Rightarrow> outcome" where
  "feed [] s = Done s"
| "feed (d # ds) s =
     (case updateDistanceDisplay d s of Threw s' \<Rightarrow> Threw s' | Done s' \<Rightarrow> feed ds s')"

subsection \<open>searchBusStation (lines 127-222)\<close>

text \<open>
  A result of the geocoding service, as far as the script reads it: \<open>lat\<close> and
  \<open>lon\<close> are the numbers that \<open>parseFloat\<close> reads from the two fields, and
  \<open>None\<close> is a field that is missing.
\<close>

record raw_result =
  display_name :: "string option"
  result_lat :: real
  result_lon :: real
  result_type :: "string option"
  result_class :: "string option"

text \<open>
  What one request brings: an exception (of \<open>fetch\<close>, of the encoding of the query or
  of the parsing of the body), a response that is not \<open>ok\<close>, or a body.
\<close>

datatype fetch_outcome = FetchThrows | NotOk | Body "raw_result list"

text \<open>The Hebrew words that lines 134-135 append to the query: " station", " bus station".\<close>

definition station_word :: string where
  "station_word =
     [CHR '' '', CHR 0xD7, CHR 0xAA, CHR 0xD7, CHR 0x97, CHR 0xD7, CHR 0xA0, CHR 0xD7, CHR 0x94]"

definition bus_station_words :: string where
  "bus_station_words =
     [CHR '' '', CHR 0xD7, CHR 0xAA, CHR 0xD7, CHR 0x97, CHR 0xD7, CHR 0xA0, CHR 0xD7, CHR 0xAA,
      CHR '' '', CHR 0xD7, CHR 0x90, CHR 0xD7, CHR 0x95, CHR 0xD7, CHR 0x98, CHR 0xD7, CHR 0x95,
      CHR 0xD7, CHR 0x91, CHR 0xD7, CHR 0x95, CHR 0xD7, CHR 0xA1]"

text \<open>The stem of "station" that line 196 looks for.\<close>

definition station_stem :: string where
  "station_stem = [CHR 0xD7, CHR 0xAA, CHR 0xD7, CHR 0x97, CHR 0xD7, CHR 0xA0]"

definition searches :: "string \<Rightarrow> string list" where
  "searches query =
     [query @ '' bus stop'', query @ station_word, query @ bus_station_words, query]"

text \<open>
  The loop of lines 141-163 over the queries that are left: a body is appended to
  \<open>allResults\<close>, a response that is not \<open>ok\<close> is skipped, and an exception is
  written to the console as a warning.
\<close>

fun searchLoop ::
  "(string \<Rightarrow> fetch_outcome) \<Rightarrow> string list \<Rightarrow> raw_result list \<times> effect list
     \<Rightarrow> raw_result list \<times> effect list" where
  "searchLoop fetch [] acc = acc"
| "searchLoop fetch (searchQuery # rest) (allResults, shown) =
     (case fetch searchQuery of
        Body results \<Rightarrow> searchLoop fetch rest (allResults @ results, shown)
      | NotOk \<Rightarrow> searchLoop fetch rest (allResults, shown)
      | FetchThrows \<Rightarrow> searchLoop fetch rest (allResults, shown @ [ConsoleWarn searchQuery]))"

text \<open>
  The removal of duplicates (lines 165-181): a result is a duplicate when it is less than
  50 metres away from a result that has been kept.
\<close>

definition isDuplicate :: "raw_result list \<Rightarrow> raw_result \<Rightarrow> bool" where
  "isDuplicate uniqueResults result =
     list_ex
       (\<lambda>existing.
          calculateDistance (result_lat result) (result_lon result)
            (result_lat existing) (result_lon existing) < 5 / 100)
       uniqueResults"

fun removeDuplicates :: "raw_result list \<Rightarrow> raw_result list \<Rightarrow> raw_result list" where
  "removeDuplicates uniqueResults [] = uniqueResults"
| "removeDuplicates uniqueResults (result # rest) =
     removeDuplicates
       (if \<not> isDuplicate uniqueResults result then uniqueResults @ [result] else uniqueResults)
       rest"

text \<open>
  \<open>toLowerCase\<close> and \<open>includes\<close> on the bytes of a string: the letters \<open>A\<close> to
  \<open>Z\<close> are lowered, every other byte is kept.
\<close>

definition lower_char :: "char \<Rightarrow> char" where
  "lower_char c =
     (let n = (of_char c :: nat) in if 65 \<le> n \<and> n \<le> 90 then char_of (n + 32) else c)"

definition toLowerCase :: "string \<Rightarrow> string" where
  "toLowerCase s = map lower_char s"

fun includes_text :: "string \<Rightarrow> string \<Rightarrow> bool" where
  "includes_text [] sub = (sub = [])"
| "includes_text (c # cs) sub = (take (length sub) (c # cs) = sub \<or> includes_text cs sub)"

text \<open>
  The callback of the filter (lines 185-200). Line 186 throws a \<open>TypeError\<close> for a
  result without a \<open>display_name\<close>: that is \<open>None\<close>.
\<close>

definition isTransit :: "raw_result \<Rightarrow> bool option" where
  "isTransit result =
     (case display_name result of
        None \<Rightarrow> None
      | Some dn \<Rightarrow>
          (let name = toLowerCase dn;
               type = toLowerCase (case result_type result of None \<Rightarrow> [] | Some t \<Rightarrow> t);
               category = toLowerCase (case result_class result of None \<Rightarrow> [] | Some c \<Rightarrow> c)
           in Some
                (includes_text type ''bus_stop'' \<or>
                 includes_text type ''station'' \<or>
                 includes_text category ''highway'' \<or>
                 includes_text category ''public_transport'' \<or>
                 includes_text name station_stem \<or>
                 includes_text name ''bus'' \<or>
                 includes_text name ''station'')))"

fun filterResults :: "raw_result list \<Rightarrow> raw_result list option" where
  "filterResults [] = Some []"
| "filterResults (result # rest) =
     (case isTransit result of
        None \<Rightarrow> None
      | Some keep \<Rightarrow>
          (case filterResults rest of
             None \<Rightarrow> None
           | Some kept \<Rightarrow> Some (if keep then result # kept else kept)))"

text \<open>
  The search: the effects it has, in order, and the list it returns. \<open>fetch\<close> is what
  the network brings for each query.
\<close>

definition searchBusStation ::
  "(string \<Rightarrow> fetch_outcome) \<Rightarrow> string \<Rightarrow> effect list \<times> raw_result list" where
  "searchBusStation fetch query =
     (let (allResults, shown) =
            searchLoop fetch (searches query) ([], [ShowStatus MsgSearching SevInfo]);
          uniqueResults = removeDuplicates [] allResults
      in case filterResults uniqueResults of
           None \<Rightarrow> (shown @ [ConsoleError TypeError, ShowStatus MsgSearchError SevError], [])
         | Some transit \<Rightarrow>
             (let filteredResults = take 10 transit
              in if length filteredResults = 0 \<and> 0 < length uniqueResults
                 then
                   (shown @ [ShowStatus (MsgFoundResults (min (length uniqueResults) 10)) SevSuccess],
                    take 10 uniqueResults)
                 else if length filteredResults = 0
                 then (shown @ [ShowStatus MsgNoStations SevWarning], [])
                 else
                   (shown @ [ShowStatus (MsgFoundStations (length filteredResults)) SevSuccess],
                    filteredResults)))"

section \<open>Notions of the statements\<close>

subsection \<open>The distance\<close>

text \<open>The value of the variable \<open>a\<close> of \<open>calculateDistance\<close> (lines 327-330).\<close>

definition haversine :: "real \<Rightarrow> real \<Rightarrow> real \<Rightarrow> real \<Rightarrow> real" where
  "haversine lat1 lon1 lat2 lon2 =
     sin (toRad (lat2 - lat1) / 2) * sin (toRad (lat2 - lat1) / 2)
       + cos (toRad lat1) * cos (toRad lat2)
           * sin (toRad (lon2 - lon1) / 2) * sin (toRad (lon2 - lon1) / 2)"

subsection \<open>The alert latch\<close>

text \<open>
  A session is armed when both the position of the user and the station are known;
  \<open>updateDistanceDisplay\<close> throws otherwise.
\<close>

definition armed :: "session \<Rightarrow> bool" where
  "armed s = (userLocation s \<noteq> None \<and> selectedStation s \<noteq> None)"

text \<open>
  The effects behind the latch (lines 425-432): the sound, the platform notification and
  the warning on the status line. (The card of the alert zone, \<open>AlertZone True\<close>, is
  written again at every update inside the zone.)
\<close>

definition alertEffects :: "effect set" where
  "alertEffects =
     {PlayAlertSound, ShowBrowserNotification, ShowStatus MsgAlertZoneReached SevWarning}"

text \<open>
  The entries into the alert zone along a sequence of distances, in the words of the
  specification: a distance within the threshold enters the zone when its predecessor
  was beyond the threshold. \<open>inside\<close> says whether the predecessor was within; for the
  first distance it is the latch as the sequence finds it.
\<close>

fun zoneEntries :: "bool \<Rightarrow> real list \<Rightarrow> nat" where
  "zoneEntries inside [] = 0"
| "zoneEntries inside (d # ds) =
     (if d \<le> ALERT_DISTANCE \<and> \<not> inside then 1 else 0) + zoneEntries (d \<le> ALERT_DISTANCE) ds"

subsection \<open>Polling\<close>

text \<open>
  A run of failed polls: the timer fires and the position request fails, once for each
  error of the list.
\<close>

definition failedPolls :: "nat \<Rightarrow> geo_error list \<Rightarrow> event list" where
  "failedPolls h gs = concat (map (\<lambda>g. [TimerFires h, TickAnswer (Failed g)]) gs)"

text \<open>The events of polls that fail, in any order: a timer fires, a poll's request fails.\<close>

fun pollFailure :: "event \<Rightarrow> bool" where
  "pollFailure (TimerFires h) = True"
| "pollFailure (TickAnswer (Failed g)) = True"
| "pollFailure e = False"

text \<open>Nothing is pending: no timer is set and no position request is under way.\<close>

definition quiet :: "session \<Rightarrow> bool" where
  "quiet s =
     (timers s = {} \<and> loadRequests s = 0 \<and> startRequests s = 0 \<and> tickRequests s = 0)"

text \<open>The effects of one call of \<open>stopTracking\<close> (lines 582-586).\<close>

definition stopEffects :: "effect list" where
  "stopEffects = [TrackingControls False, ShowStatus MsgTrackingStopped SevInfo]"

subsection \<open>Search\<close>



text \<open>A request fails in transport; a request brings no result.\<close>

definition transportFails :: "fetch_outcome \<Rightarrow> bool" where
  "transportFails out =
     (case out of Body results \<Rightarrow> False | NotOk \<Rightarrow> True | FetchThrows \<Rightarrow> True)"

definition bringsNothing :: "fetch_outcome \<Rightarrow> bool" where
  "bringsNothing out =
     (case out of Body results \<Rightarrow> results = [] | NotOk \<Rightarrow> True | FetchThrows \<Rightarrow> True)"

text \<open>The warnings that the loop writes to the console: one for each request that throws.\<close>

definition warnings :: "(string \<Rightarrow> fetch_outcome) \<Rightarrow> string list \<Rightarrow> effect list" where
  "warnings fetch qs = map ConsoleWarn (filter (\<lambda>q. fetch q = FetchThrows) qs)"

subsection \<open>Concrete inputs\<close>

text \<open>
  A station and a position at the same place (the centre of the map of line 20), a page
  on which that station is selected and the first position request has been answered,
  the same page once the position is known, and the state that \<open>startTracking\<close>
  reaches from there.
\<close>

definition station0 :: station where
  "station0 =
     \<lparr>station_name = ''Arlozorov'', station_address = ''Arlozorov, Tel Aviv'',
      station_lat = 320853 / 10000, station_lng = 347818 / 10000\<rparr>"

definition position0 :: position where
  "position0 = \<lparr>lat = 320853 / 10000, lng = 347818 / 10000, accuracy = 10\<rparr>"

definition selected0 :: session where
  "selected0 = initial\<lparr>selectedStation := Some station0, loadRequests := 0\<rparr>"

definition armed0 :: session where
  "armed0 = selected0\<lparr>userLocation := Some position0\<rparr>"

definition tracking0 :: session where
  "tracking0 =
     \<lparr>userLocation = Some position0, selectedStation = Some station0,
      trackingInterval = Some 1, isTracking = True, hasAlerted = True, timers = {1},
      timersCreated = 1, loadRequests = 0, startRequests = 0, tickRequests = 0,
      effects =
        [ArmAlertSound, RequestNotificationPermission, UserMarker position0,
         TrackingControls True, DistanceText 0, UserCoordinates position0,
         StationCoordinates station0, ResultsShown, AlertZone True, PlayAlertSound,
         ShowStatus MsgAlertZoneReached SevWarning, ShowBrowserNotification, RouteLine,
         FitBounds, ShowStatus MsgTrackingStarted SevSuccess]\<rparr>"

text \<open>
  Tracking starts, the timer fires once, and the user stops tracking while the request
  of that poll is still under way.
\<close>

definition lateAnswer :: "event list" where
  "lateAnswer = [ClickStart, StartAnswer (Located position0), TimerFires 1, ClickStop]"




text \<open>A network that is down, and a service that finds nothing.\<close>

definition downFetch :: "string \<Rightarrow> fetch_outcome" where
  "downFetch q = FetchThrows"

definition emptyFetch :: "string \<Rightarrow> fetch_outcome" where
  "emptyFetch q = Body []"

section \<open>The great-circle distance\<close>

subsection \<open>The square roots are taken of numbers that are not negative\<close>

text \<open>
  \<open>Math.sqrt\<close> of a negative number is NaN, which the model does not have. It does
  not need it: \<open>a\<close> is half of one minus the inner product of two unit vectors, so
  both \<open>a\<close> and \<open>1 - a\<close> lie between 0 and 1, whatever the coordinates. As a
  check of the formula, one degree of longitude on the equator is the 360th part of
  the circumference (111.19 km).
\<close>

lemma calculateDistance_haversine:
  "calculateDistance lat1 lon1 lat2 lon2 =
     6371 * (2 * atan2 (sqrt (haversine lat1 lon1 lat2 lon2))
                       (sqrt (1 - haversine lat1 lon1 lat2 lon2)))"
  by (simp add: calculateDistance_def haversine_def Let_def)

lemma sin_half_squared: "sin (x / 2) * sin (x / 2) = (1 - cos x) / (2 :: real)"
proof -
  have "cos x = cos (2 * (x / 2))" by simp
  also have "\<dots> = 1 - 2 * (sin (x / 2))\<^sup>2" by (rule cos_double_sin)
  finally show ?thesis by (simp add: power2_eq_square)
qed

lemma toRad_diff: "toRad (x - y) = toRad x - toRad y"
  by (simp add: toRad_def left_diff_distrib)

lemma haversine_dot:
  "haversine lat1 lon1 lat2 lon2 =
     (1 - (sin (toRad lat1) * sin (toRad lat2)
            + cos (toRad lat1) * cos (toRad lat2) * cos (toRad (lon2 - lon1)))) / 2"
proof -
  have "haversine lat1 lon1 lat2 lon2 =
      (1 - cos (toRad lat2 - toRad lat1)) / 2
        + cos (toRad lat1) * cos (toRad lat2) * ((1 - cos (toRad (lon2 - lon1))) / 2)"
    unfolding haversine_def
    by (simp only: mult.assoc sin_half_squared toRad_diff [of lat2 lat1])
  also have "\<dots> = (1 - (sin (toRad lat1) * sin (toRad lat2)
            + cos (toRad lat1) * cos (toRad lat2) * cos (toRad (lon2 - lon1)))) / 2"
    by (simp add: cos_diff field_simps)
  finally show ?thesis .
qed

lemma dot_bounds:
  fixes p q t :: real
  assumes "- 1 \<le> t" and "t \<le> 1"
  shows "\<bar>sin p * sin q + cos p * cos q * t\<bar> \<le> 1"
proof -
  define A where "A = (1 + t) / 2 * cos (p - q)"
  define B where "B = (1 - t) / 2 * cos (p + q)"
  have e: "sin p * sin q + cos p * cos q * t = A - B"
    unfolding A_def B_def by (simp add: cos_diff cos_add field_simps)
  have "(1 + t) / 2 * cos (p - q) \<le> (1 + t) / 2 * 1"
    using assms by (intro mult_left_mono) simp_all
  then have u1: "A \<le> (1 + t) / 2" unfolding A_def by simp
  have "(1 + t) / 2 * (- 1) \<le> (1 + t) / 2 * cos (p - q)"
    using assms by (intro mult_left_mono) simp_all
  then have l1: "- ((1 + t) / 2) \<le> A" unfolding A_def by simp
  have "(1 - t) / 2 * cos (p + q) \<le> (1 - t) / 2 * 1"
    using assms by (intro mult_left_mono) simp_all
  then have u2: "B \<le> (1 - t) / 2" unfolding B_def by simp
  have "(1 - t) / 2 * (- 1) \<le> (1 - t) / 2 * cos (p + q)"
    using assms by (intro mult_left_mono) simp_all
  then have l2: "- ((1 - t) / 2) \<le> B" unfolding B_def by simp
  have up: "A - B \<le> 1" using u1 l2 by argo
  have lo: "- 1 \<le> A - B" using l1 u2 by argo
  show ?thesis
    unfolding e using up lo by (auto simp: abs_le_iff)
qed

lemma haversine_range:
  "0 \<le> haversine lat1 lon1 lat2 lon2 \<and> haversine lat1 lon1 lat2 lon2 \<le> 1"
proof -
  have "\<bar>sin (toRad lat1) * sin (toRad lat2)
            + cos (toRad lat1) * cos (toRad lat2) * cos (toRad (lon2 - lon1))\<bar> \<le> 1"
    by (intro dot_bounds) simp_all
  then show ?thesis
    unfolding haversine_dot by (simp add: abs_le_iff)
qed

lemma atan2_sin_cos: "0 < x \<Longrightarrow> x < pi / 2 \<Longrightarrow> atan2 (sin x) (cos x) = x"
proof -
  assume a: "0 < x" "x < pi / 2"
  then have c: "0 < cos x" by (intro cos_gt_zero_pi) simp_all
  have "arctan (sin x / cos x) = arctan (tan x)" by (simp add: tan_def)
  also have "\<dots> = x" using a by (intro arctan_tan) simp_all
  finally show ?thesis using c by (simp add: atan2_def)
qed

lemma one_degree_on_the_equator: "calculateDistance 0 0 0 1 = 6371 * pi / 180"
proof -
  let ?x = "pi / 360"
  have x: "0 < ?x" "?x < pi / 2" by simp_all
  have s: "0 < sin ?x" using x by (intro sin_gt_zero) simp_all
  have c: "0 < cos ?x" using x by (intro cos_gt_zero_pi) simp_all
  have h: "haversine 0 0 0 1 = (sin ?x)\<^sup>2"
    by (simp add: haversine_def toRad_def power2_eq_square)
  have h': "1 - (sin ?x)\<^sup>2 = (cos ?x)\<^sup>2"
    using sin_cos_squared_add [of ?x] by linarith
  have "calculateDistance 0 0 0 1 = 6371 * (2 * atan2 (sin ?x) (cos ?x))"
    unfolding calculateDistance_haversine h h' using s c by simp
  also have "\<dots> = 6371 * (2 * ?x)" using x by (simp only: atan2_sin_cos)
  finally show ?thesis by simp
qed

subsection \<open>Symmetry\<close>


lemma calculateDistance_self: "calculateDistance lat1 lon1 lat1 lon1 = 0"
  by (simp add: calculateDistance_def toRad_def atan2_def)



section \<open>Formatting\<close>

declare digits.simps [simp del]










lemma round_1000: "9995 / 10000 \<le> km \<Longrightarrow> km < 1 \<Longrightarrow> js_round (km * 1000) = 1000"
  unfolding js_round_def by linarith



text \<open>
  Claim C10. A distance below one kilometre that rounds to 1000 metres (from 0.9995 km
  on) is shown in the form of the metres, as "1000" with the unit of the metres: the
  rounding happens inside the branch for the distances below one kilometre.
\<close>

theorem formatDistance_1000_meters:
  "9995 / 10000 \<le> km \<Longrightarrow> km < 1 \<Longrightarrow> formatDistance host km = ''1000'' @ meter_suffix"
  by (simp add: formatDistance_def round_1000 numberToString_def digits.simps digit_char_def)

theorem formatDistance_1000_meters_witness:
  "\<forall>host. formatDistance host (9996 / 10000) = ''1000'' @ meter_suffix"
  using formatDistance_1000_meters [of "9996 / 10000"] by simp






section \<open>The alert latch\<close>

lemmas effect_defs =
  emit_def showStatus_def playAlertSound_def showBrowserNotification_def drawRouteLine_def
  requestNotificationPermission_def armAlertSound_def updateUserMarker_def locationFound_def

lemma updateDistanceDisplay_armed:
  assumes "armed s"
  shows "\<exists>s'. updateDistanceDisplay d s = Done s' \<and> armed s' \<and>
           hasAlerted s' = (d \<le> ALERT_DISTANCE) \<and>
           occurrences PlayAlertSound s' =
             occurrences PlayAlertSound s
               + (if d \<le> ALERT_DISTANCE \<and> \<not> hasAlerted s then 1 else 0) \<and>
           occurrences ShowBrowserNotification s' =
             occurrences ShowBrowserNotification s
               + (if d \<le> ALERT_DISTANCE \<and> \<not> hasAlerted s then 1 else 0) \<and>
           occurrences (ShowStatus MsgAlertZoneReached SevWarning) s' =
             occurrences (ShowStatus MsgAlertZoneReached SevWarning) s
               + (if d \<le> ALERT_DISTANCE \<and> \<not> hasAlerted s then 1 else 0)"
proof -
  from assms obtain u st where u: "userLocation s = Some u" and st: "selectedStation s = Some st"
    by (auto simp: armed_def)
  show ?thesis
    by (simp add: updateDistanceDisplay_def effect_defs occurrences_def armed_def u st Let_def)
qed

lemma feed_armed:
  "armed s \<Longrightarrow>
   \<exists>s'. feed ds s = Done s' \<and> armed s' \<and>
     hasAlerted s' = (if ds = [] then hasAlerted s else last ds \<le> ALERT_DISTANCE) \<and>
     occurrences PlayAlertSound s' = occurrences PlayAlertSound s + zoneEntries (hasAlerted s) ds \<and>
     occurrences ShowBrowserNotification s' =
       occurrences ShowBrowserNotification s + zoneEntries (hasAlerted s) ds \<and>
     occurrences (ShowStatus MsgAlertZoneReached SevWarning) s' =
       occurrences (ShowStatus MsgAlertZoneReached SevWarning) s + zoneEntries (hasAlerted s) ds"
proof (induction ds arbitrary: s)
  case Nil
  then show ?case by simp
next
  case (Cons d ds)
  from updateDistanceDisplay_armed [OF Cons.prems, of d] obtain s1 where
    s1: "updateDistanceDisplay d s = Done s1" "armed s1" "hasAlerted s1 = (d \<le> ALERT_DISTANCE)"
      "occurrences PlayAlertSound s1 =
         occurrences PlayAlertSound s
           + (if d \<le> ALERT_DISTANCE \<and> \<not> hasAlerted s then 1 else 0)"
      "occurrences ShowBrowserNotification s1 =
         occurrences ShowBrowserNotification s
           + (if d \<le> ALERT_DISTANCE \<and> \<not> hasAlerted s then 1 else 0)"
      "occurrences (ShowStatus MsgAlertZoneReached SevWarning) s1 =
         occurrences (ShowStatus MsgAlertZoneReached SevWarning) s
           + (if d \<le> ALERT_DISTANCE \<and> \<not> hasAlerted s then 1 else 0)"
    by blast
  from Cons.IH [OF s1(2)] obtain s2 where
    s2: "feed ds s1 = Done s2" "armed s2"
      "hasAlerted s2 = (if ds = [] then hasAlerted s1 else last ds \<le> ALERT_DISTANCE)"
      "occurrences PlayAlertSound s2 =
         occurrences PlayAlertSound s1 + zoneEntries (hasAlerted s1) ds"
      "occurrences ShowBrowserNotification s2 =
         occurrences ShowBrowserNotification s1 + zoneEntries (hasAlerted s1) ds"
      "occurrences (ShowStatus MsgAlertZoneReached SevWarning) s2 =
         occurrences (ShowStatus MsgAlertZoneReached SevWarning) s1
           + zoneEntries (hasAlerted s1) ds"
    by blast
  show ?case
    using s1 s2 by simp
qed

text \<open>
  Claim C1. On an armed session every update of the distance returns, and the sound, the
  notification and the warning each occur exactly once per entry into the alert zone:
  an update within the threshold fires them when the latch \<open>hasAlerted\<close> is not set,
  and sets it; it fires nothing when the latch is set; an update beyond the threshold
  resets the latch. Along a sequence of updates each of the three occurs as often as the
  sequence enters the zone, so a sequence that starts beyond the threshold, comes within,
  stays, leaves and comes within again fires each of them exactly twice. Stopping resets
  the latch as well.
\<close>

theorem alert_once_per_zone_entry:
  assumes "armed s"
  shows
    "(\<exists>s'. updateDistanceDisplay d s = Done s' \<and> armed s' \<and>
        hasAlerted s' = (d \<le> ALERT_DISTANCE) \<and>
        (\<forall>e \<in> alertEffects.
           occurrences e s' =
             occurrences e s + (if d \<le> ALERT_DISTANCE \<and> \<not> hasAlerted s then 1 else 0))) \<and>
     (\<exists>s'. feed ds s = Done s' \<and>
        hasAlerted s' = (if ds = [] then hasAlerted s else last ds \<le> ALERT_DISTANCE) \<and>
        (\<forall>e \<in> alertEffects.
           occurrences e s' = occurrences e s + zoneEntries (hasAlerted s) ds)) \<and>
     (\<not> hasAlerted s \<and> ALERT_DISTANCE < x \<and> a \<le> ALERT_DISTANCE \<and> b \<le> ALERT_DISTANCE \<and>
      ALERT_DISTANCE < y \<and> c \<le> ALERT_DISTANCE \<longrightarrow>
        (\<exists>s'. feed [x, a, b, y, c] s = Done s' \<and>
           (\<forall>e \<in> alertEffects. occurrences e s' = occurrences e s + 2))) \<and>
     \<not> hasAlerted (stopTracking s)"
proof (intro conjI impI)
  show "\<exists>s'. updateDistanceDisplay d s = Done s' \<and> armed s' \<and>
        hasAlerted s' = (d \<le> ALERT_DISTANCE) \<and>
        (\<forall>e \<in> alertEffects.
           occurrences e s' =
             occurrences e s + (if d \<le> ALERT_DISTANCE \<and> \<not> hasAlerted s then 1 else 0))"
    using updateDistanceDisplay_armed [OF assms, of d] unfolding alertEffects_def by blast
next
  show "\<exists>s'. feed ds s = Done s' \<and>
        hasAlerted s' = (if ds = [] then hasAlerted s else last ds \<le> ALERT_DISTANCE) \<and>
        (\<forall>e \<in> alertEffects.
           occurrences e s' = occurrences e s + zoneEntries (hasAlerted s) ds)"
    using feed_armed [OF assms, of ds] unfolding alertEffects_def by blast
next
  assume h: "\<not> hasAlerted s \<and> ALERT_DISTANCE < x \<and> a \<le> ALERT_DISTANCE \<and>
      b \<le> ALERT_DISTANCE \<and> ALERT_DISTANCE < y \<and> c \<le> ALERT_DISTANCE"
  then have two: "zoneEntries (hasAlerted s) [x, a, b, y, c] = 2" by simp
  show "\<exists>s'. feed [x, a, b, y, c] s = Done s' \<and>
           (\<forall>e \<in> alertEffects. occurrences e s' = occurrences e s + 2)"
    using feed_armed [OF assms, of "[x, a, b, y, c]"] unfolding alertEffects_def two by blast
next
  show "\<not> hasAlerted (stopTracking s)"
    by (simp add: stopTracking_def showStatus_def emit_def Let_def)
qed

theorem alert_once_per_zone_entry_witness:
  "armed armed0 \<and> \<not> hasAlerted armed0 \<and>
   (\<exists>s'. feed [8, 4, 3, 7, 2] armed0 = Done s' \<and> hasAlerted s' \<and>
      occurrences PlayAlertSound s' = 2 \<and>
      occurrences ShowBrowserNotification s' = 2 \<and>
      occurrences (ShowStatus MsgAlertZoneReached SevWarning) s' = 2)"
proof -
  have a: "armed armed0" and n: "\<not> hasAlerted armed0"
    and z: "occurrences e armed0 = 0" for e
    by (simp_all add: armed_def armed0_def selected0_def initial_def occurrences_def)
  have "\<not> hasAlerted armed0 \<and> ALERT_DISTANCE < 8 \<and> 4 \<le> ALERT_DISTANCE \<and>
      3 \<le> ALERT_DISTANCE \<and> ALERT_DISTANCE < 7 \<and> 2 \<le> ALERT_DISTANCE"
    using n by (simp add: ALERT_DISTANCE_def)
  with alert_once_per_zone_entry [OF a, of _ "[8, 4, 3, 7, 2]" 8 4 3 7 2]
  obtain s' s'' where
    s': "feed [8, 4, 3, 7, 2] armed0 = Done s'"
      "\<forall>e \<in> alertEffects. occurrences e s' = occurrences e armed0 + 2"
    and s'': "feed [8, 4, 3, 7, 2] armed0 = Done s''"
      "hasAlerted s'' = (if [8, 4, 3, 7, 2 :: real] = [] then hasAlerted armed0
         else last [8, 4, 3, 7, 2] \<le> ALERT_DISTANCE)"
    by blast
  from s'(1) s''(1) have same: "s'' = s'" by simp
  from s''(2) have "hasAlerted s'" unfolding same by (simp add: ALERT_DISTANCE_def)
  moreover from s'(2) have "occurrences PlayAlertSound s' = 2"
      "occurrences ShowBrowserNotification s' = 2"
      "occurrences (ShowStatus MsgAlertZoneReached SevWarning) s' = 2"
    by (simp_all add: alertEffects_def z)
  ultimately show ?thesis
    using a n s'(1) by blast
qed

section \<open>Starting, polling and stopping\<close>

lemmas tracking_defs =
  step_def startTracking_def startTracking_resume_def trackingTick_def trackingTick_resume_def
  stopTracking_def pageLoad_resume_def currentDistance_def updateDistanceDisplay_def
  setInterval_def clearInterval_def effect_defs ALERT_DISTANCE_def Let_def

lemma exec_append:
  "exec (xs @ ys) s = (case exec xs s of None \<Rightarrow> None | Some s' \<Rightarrow> exec ys s')"
  by (induction xs arbitrary: s) (auto split: option.splits)

lemma distance0:
  "calculateDistance (lat position0) (lng position0) (station_lat station0) (station_lng station0)
     = 0"
  by (simp add: position0_def station0_def calculateDistance_self)

lemma start_reaches_tracking0:
  "exec [ClickStart, StartAnswer (Located position0)] selected0 = Some tracking0"
  by (simp add: tracking_defs selected0_def initial_def tracking0_def distance0)

text \<open>
  Claim C4. Without a selected station \<open>startTracking\<close> only shows the message that
  asks for a station, as an error: \<open>isTracking\<close> stays as it is (false), no timer is
  set, no position is requested, and nothing else of the state changes.
\<close>

theorem startTracking_without_station:
  "selectedStation s = None \<Longrightarrow>
   startTracking s = s\<lparr>effects := effects s @ [ShowStatus MsgSelectStationFirst SevError]\<rparr> \<and>
   isTracking (startTracking s) = isTracking s \<and>
   trackingInterval (startTracking s) = trackingInterval s \<and>
   timers (startTracking s) = timers s \<and>
   startRequests (startTracking s) = startRequests s"
  by (simp add: startTracking_def showStatus_def emit_def)

theorem startTracking_without_station_witness:
  "selectedStation initial = None \<and>
   \<not> isTracking (startTracking initial) \<and>
   timers (startTracking initial) = {} \<and>
   trackingInterval (startTracking initial) = None \<and>
   startRequests (startTracking initial) = 0 \<and>
   effects (startTracking initial) = [ShowStatus MsgSelectStationFirst SevError]"
  using startTracking_without_station [of initial] by (simp add: initial_def)

lemma failed_poll_step:
  "h \<in> timers s \<Longrightarrow>
   exec [TimerFires h, TickAnswer (Failed g)] s =
     Some (s\<lparr>effects := effects s @ [ConsoleError (LocationError g)]\<rparr>)"
  by (simp add: step_def trackingTick_def trackingTick_resume_def emit_def)

lemma failedPolls_exec:
  "h \<in> timers s \<Longrightarrow>
   exec (failedPolls h gs) s =
     Some (s\<lparr>effects := effects s @ map (\<lambda>g. ConsoleError (LocationError g)) gs\<rparr>)"
proof (induction gs arbitrary: s)
  case Nil
  then show ?case by (simp add: failedPolls_def)
next
  case (Cons g gs)
  let ?s1 = "s\<lparr>effects := effects s @ [ConsoleError (LocationError g)]\<rparr>"
  have "failedPolls h (g # gs) = [TimerFires h, TickAnswer (Failed g)] @ failedPolls h gs"
    by (simp add: failedPolls_def)
  then have "exec (failedPolls h (g # gs)) s = exec (failedPolls h gs) ?s1"
    using failed_poll_step [OF Cons.prems, of g] by (simp only: exec_append option.case)
  moreover have "h \<in> timers ?s1" using Cons.prems by simp
  ultimately show ?case
    using Cons.IH [of ?s1] by simp
qed

lemma pollFailure_step:
  "pollFailure e \<Longrightarrow> step e s = Some s' \<Longrightarrow>
   isTracking s' = isTracking s \<and> hasAlerted s' = hasAlerted s \<and>
   userLocation s' = userLocation s \<and> selectedStation s' = selectedStation s \<and>
   trackingInterval s' = trackingInterval s \<and> timers s' = timers s"
  by (cases e rule: pollFailure.cases)
     (auto simp: step_def trackingTick_def trackingTick_resume_def emit_def split: if_splits)

lemma pollFailure_exec:
  "list_all pollFailure evs \<Longrightarrow> exec evs s = Some s' \<Longrightarrow>
   isTracking s' = isTracking s \<and> hasAlerted s' = hasAlerted s \<and>
   userLocation s' = userLocation s \<and> selectedStation s' = selectedStation s \<and>
   trackingInterval s' = trackingInterval s \<and> timers s' = timers s"
proof (induction evs arbitrary: s)
  case Nil
  then show ?case by simp
next
  case (Cons e evs)
  from Cons.prems obtain s1 where s1: "step e s = Some s1" "exec evs s1 = Some s'"
    by (auto split: option.splits)
  from Cons.prems have "pollFailure e" "list_all pollFailure evs" by simp_all
  then show ?case
    using pollFailure_step [OF _ s1(1)] Cons.IH [OF _ s1(2)] by simp
qed

text \<open>
  Claim C5. A poll whose position request fails is written to the console and changes
  nothing else: after any number of polls that fail one after the other, the state is
  the state before with one console error per failure, so \<open>isTracking\<close>,
  \<open>hasAlerted\<close>, the last position and the timer are as before and the timer can fire
  again. The same fields are unchanged by any run of timer firings and failed answers,
  in whatever order they come.
\<close>

theorem failed_polls_keep_tracking:
  assumes "h \<in> timers s"
  shows
    "(\<exists>s'. exec (failedPolls h gs) s = Some s' \<and>
        s' = s\<lparr>effects := effects s @ map (\<lambda>g. ConsoleError (LocationError g)) gs\<rparr> \<and>
        isTracking s' = isTracking s \<and> hasAlerted s' = hasAlerted s \<and>
        userLocation s' = userLocation s \<and> trackingInterval s' = trackingInterval s \<and>
        timers s' = timers s \<and> step (TimerFires h) s' = Some (trackingTick s')) \<and>
     (\<forall>evs s'. list_all pollFailure evs \<and> exec evs s = Some s' \<longrightarrow>
        isTracking s' = isTracking s \<and> hasAlerted s' = hasAlerted s \<and>
        userLocation s' = userLocation s \<and> trackingInterval s' = trackingInterval s \<and>
        timers s' = timers s)"
proof
  show "\<exists>s'. exec (failedPolls h gs) s = Some s' \<and>
        s' = s\<lparr>effects := effects s @ map (\<lambda>g. ConsoleError (LocationError g)) gs\<rparr> \<and>
        isTracking s' = isTracking s \<and> hasAlerted s' = hasAlerted s \<and>
        userLocation s' = userLocation s \<and> trackingInterval s' = trackingInterval s \<and>
        timers s' = timers s \<and> step (TimerFires h) s' = Some (trackingTick s')"
    using assms by (simp add: failedPolls_exec step_def)
next
  show "\<forall>evs s'. list_all pollFailure evs \<and> exec evs s = Some s' \<longrightarrow>
        isTracking s' = isTracking s \<and> hasAlerted s' = hasAlerted s \<and>
        userLocation s' = userLocation s \<and> trackingInterval s' = trackingInterval s \<and>
        timers s' = timers s"
    using pollFailure_exec by blast
qed

theorem failed_polls_keep_tracking_witness:
  "1 \<in> timers tracking0 \<and>
   exec (failedPolls 1 [Timeout, PositionUnavailable, Timeout]) tracking0 =
     Some (tracking0\<lparr>effects := effects tracking0 @
       [ConsoleError (LocationError Timeout), ConsoleError (LocationError PositionUnavailable),
        ConsoleError (LocationError Timeout)]\<rparr>) \<and>
   map_option isTracking
     (exec [TimerFires 1, TimerFires 1, TickAnswer (Failed Timeout)] tracking0) = Some True"
proof -
  have t: "1 \<in> timers tracking0" by (simp add: tracking0_def)
  note kept = failed_polls_keep_tracking [OF t, of "[Timeout, PositionUnavailable, Timeout]"]
  obtain s' where
    s': "exec [TimerFires 1, TimerFires 1, TickAnswer (Failed Timeout)] tracking0 = Some s'"
    by (simp add: step_def trackingTick_def tracking0_def)
  have "list_all pollFailure [TimerFires 1, TimerFires 1, TickAnswer (Failed Timeout)]" by simp
  with kept s' have "isTracking s' = isTracking tracking0" by blast
  then have "map_option isTracking
      (exec [TimerFires 1, TimerFires 1, TickAnswer (Failed Timeout)] tracking0) = Some True"
    unfolding s' by (simp add: tracking0_def)
  moreover from kept have
    "exec (failedPolls 1 [Timeout, PositionUnavailable, Timeout]) tracking0 =
     Some (tracking0\<lparr>effects := effects tracking0 @
       [ConsoleError (LocationError Timeout), ConsoleError (LocationError PositionUnavailable),
        ConsoleError (LocationError Timeout)]\<rparr>)"
    by simp
  ultimately show ?thesis
    using t by blast
qed

subsection \<open>Stopping\<close>

lemma stop_effects: "effects (stopTracking s) = effects s @ stopEffects"
  by (simp add: stopTracking_def stopEffects_def showStatus_def emit_def clearInterval_def Let_def
      split: option.splits)

lemma quiet_step:
  assumes "quiet s" and "e \<noteq> ClickStart" and "step e s = Some s'"
  shows "e = ClickStop \<and> quiet s' \<and> userLocation s' = userLocation s \<and>
         \<not> isTracking s' \<and> \<not> hasAlerted s' \<and> effects s' = effects s @ stopEffects"
proof (cases e)
  case ClickStop
  then have s': "s' = stopTracking s" using assms(3) by (simp add: step_def)
  show ?thesis
    using assms(1) unfolding s' ClickStop
    by (simp add: stop_effects)
       (simp add: quiet_def stopTracking_def showStatus_def emit_def clearInterval_def Let_def
         split: option.splits)
qed (use assms in \<open>simp_all add: step_def quiet_def\<close>)

lemma quiet_exec:
  "quiet s \<Longrightarrow> ClickStart \<notin> set es \<Longrightarrow> exec es s = Some s' \<Longrightarrow>
   set es \<subseteq> {ClickStop} \<and> quiet s' \<and> userLocation s' = userLocation s \<and>
   (es \<noteq> [] \<longrightarrow> \<not> isTracking s' \<and> \<not> hasAlerted s') \<and>
   (es = [] \<longrightarrow> s' = s) \<and>
   effects s' = effects s @ concat (replicate (length es) stopEffects)"
proof (induction es arbitrary: s)
  case Nil
  then show ?case by simp
next
  case (Cons e es)
  from Cons.prems(3) obtain s1 where s1: "step e s = Some s1" "exec es s1 = Some s'"
    by (auto split: option.splits)
  from Cons.prems(2) have ne: "e \<noteq> ClickStart" "ClickStart \<notin> set es" by auto
  note first = quiet_step [OF Cons.prems(1) ne(1) s1(1)]
  from first have q1: "quiet s1" by simp
  note rest = Cons.IH [OF q1 ne(2) s1(2)]
  show ?case
    using first rest by (cases "es = []") auto
qed

lemma stopTracking_quiet:
  assumes "trackingInterval s = Some h" and "0 < h" and "timers s \<subseteq> {h}"
    and "loadRequests s = 0" and "startRequests s = 0" and "tickRequests s = 0"
  shows "quiet (stopTracking s) \<and> trackingInterval (stopTracking s) = None \<and>
         \<not> isTracking (stopTracking s) \<and> \<not> hasAlerted (stopTracking s) \<and>
         userLocation (stopTracking s) = userLocation s"
  using assms
  by (auto simp: quiet_def stopTracking_def showStatus_def emit_def clearInterval_def Let_def)

lemma exec_lateAnswer:
  "exec lateAnswer selected0 =
     Some (tracking0\<lparr>trackingInterval := None, isTracking := False, hasAlerted := False,
       timers := {}, tickRequests := 1, effects := effects tracking0 @ stopEffects\<rparr>)"
proof -
  have "exec lateAnswer selected0 = exec [TimerFires 1, ClickStop] tracking0"
    using exec_append [of "[ClickStart, StartAnswer (Located position0)]"
        "[TimerFires 1, ClickStop]" selected0]
    by (simp only: lateAnswer_def start_reaches_tracking0 append.simps option.case)
  also have "\<dots> =
     Some (tracking0\<lparr>trackingInterval := None, isTracking := False, hasAlerted := False,
       timers := {}, tickRequests := 1, effects := effects tracking0 @ stopEffects\<rparr>)"
    by (simp add: tracking_defs tracking0_def stopEffects_def)
  finally show ?thesis .
qed

text \<open>
  Claim C2, as stated: the answer to a position request that was under way when the user
  stopped tracking is discarded. It is not: nothing tests \<open>isTracking\<close> when the answer
  comes. Tracking starts at the station (one alert), the timer fires, the user stops
  (which resets the latch), and the late answer is applied: the marker of the user is
  moved and the alert sounds a second time, while \<open>isTracking\<close> is false and no timer
  is set.
\<close>

theorem late_position_alerts_after_stop:
  "map_option isTracking (exec lateAnswer selected0) = Some False \<and>
   map_option timers (exec lateAnswer selected0) = Some {} \<and>
   map_option (occurrences PlayAlertSound) (exec lateAnswer selected0) = Some 1 \<and>
   map_option (occurrences (UserMarker position0)) (exec lateAnswer selected0) = Some 1 \<and>
   map_option isTracking (exec (lateAnswer @ [TickAnswer (Located position0)]) selected0)
     = Some False \<and>
   map_option (occurrences PlayAlertSound)
     (exec (lateAnswer @ [TickAnswer (Located position0)]) selected0) = Some 2 \<and>
   map_option (occurrences (UserMarker position0))
     (exec (lateAnswer @ [TickAnswer (Located position0)]) selected0) = Some 2"
  by (simp add: exec_append exec_lateAnswer)
     (simp add: tracking_defs tracking0_def stopEffects_def occurrences_def distance0)

text \<open>
  Claim C2, amended. \<open>stopTracking\<close> clears the timer held in \<open>trackingInterval\<close> at
  once and sets \<open>isTracking\<close> and \<open>hasAlerted\<close> to false. When that timer was the only
  one and no position request is under way, then until tracking is started again no
  event of tracking can happen but further clicks on the stop button: no timer fires, no
  position is applied, and the only effects are those of \<open>stopTracking\<close> itself.
\<close>

theorem stopTracking_halts_polling:
  assumes "trackingInterval s = Some h" and "0 < h" and "timers s \<subseteq> {h}"
    and "loadRequests s = 0" and "startRequests s = 0" and "tickRequests s = 0"
  shows "trackingInterval (stopTracking s) = None \<and> timers (stopTracking s) = {} \<and>
         \<not> isTracking (stopTracking s) \<and> \<not> hasAlerted (stopTracking s) \<and>
         (\<forall>es s'. ClickStart \<notin> set es \<and> exec es (stopTracking s) = Some s' \<longrightarrow>
            set es \<subseteq> {ClickStop} \<and> userLocation s' = userLocation s \<and>
            \<not> isTracking s' \<and> \<not> hasAlerted s' \<and>
            effects s' = effects s @ concat (replicate (Suc (length es)) stopEffects))"
proof -
  note stopped = stopTracking_quiet [OF assms]
  have later: "set es \<subseteq> {ClickStop} \<and> userLocation s' = userLocation s \<and>
            \<not> isTracking s' \<and> \<not> hasAlerted s' \<and>
            effects s' = effects s @ concat (replicate (Suc (length es)) stopEffects)"
    if "ClickStart \<notin> set es" and "exec es (stopTracking s) = Some s'" for es s'
  proof -
    from stopped have q: "quiet (stopTracking s)" by simp
    note run = quiet_exec [OF q that]
    show ?thesis
      using run stopped by (cases "es = []") (auto simp: stop_effects)
  qed
  show ?thesis
    using stopped later unfolding quiet_def by blast
qed

theorem stopTracking_halts_polling_witness:
  "trackingInterval tracking0 = Some 1 \<and> timers tracking0 \<subseteq> {1} \<and>
   loadRequests tracking0 = 0 \<and> startRequests tracking0 = 0 \<and> tickRequests tracking0 = 0 \<and>
   timers (stopTracking tracking0) = {} \<and>
   step (TimerFires 1) (stopTracking tracking0) = None \<and>
   map_option userLocation (exec [ClickStop] (stopTracking tracking0)) = Some (Some position0) \<and>
   map_option effects (exec [ClickStop] (stopTracking tracking0))
     = Some (effects tracking0 @ stopEffects @ stopEffects)"
proof -
  have pre: "trackingInterval tracking0 = Some 1" "0 < (1 :: nat)" "timers tracking0 \<subseteq> {1}"
    "loadRequests tracking0 = 0" "startRequests tracking0 = 0" "tickRequests tracking0 = 0"
    by (simp_all add: tracking0_def)
  note halted = stopTracking_halts_polling [OF pre]
  obtain s' where s': "exec [ClickStop] (stopTracking tracking0) = Some s'"
    by (simp add: step_def)
  have no_start: "ClickStart \<notin> set [ClickStop]" by simp
  from halted no_start s' have
    "userLocation s' = userLocation tracking0 \<and>
     effects s' = effects tracking0 @ concat (replicate (Suc (length [ClickStop])) stopEffects)"
    by blast
  then have after: "map_option userLocation (exec [ClickStop] (stopTracking tracking0))
      = Some (Some position0)"
    "map_option effects (exec [ClickStop] (stopTracking tracking0))
      = Some (effects tracking0 @ stopEffects @ stopEffects)"
    unfolding s' by (simp_all add: tracking0_def)
  from halted have "timers (stopTracking tracking0) = {}" by blast
  then have "step (TimerFires 1) (stopTracking tracking0) = None"
    by (simp add: step_def)
  then show ?thesis
    using pre halted after by blast
qed

section \<open>The station search\<close>













lemma searchLoop_nothing:
  "list_all (\<lambda>q. bringsNothing (fetch q)) qs \<Longrightarrow>
   searchLoop fetch qs (allResults, shown) = (allResults, shown @ warnings fetch qs)"
proof (induction qs arbitrary: shown)
  case Nil
  then show ?case by (simp add: warnings_def)
next
  case (Cons q qs)
  then show ?case
    by (cases "fetch q") (simp_all add: bringsNothing_def warnings_def)
qed

lemma transportFails_bringsNothing: "transportFails out \<Longrightarrow> bringsNothing out"
  by (cases out) (simp_all add: transportFails_def bringsNothing_def)

lemma search_nothing:
  assumes "list_all (\<lambda>q. bringsNothing (fetch q)) (searches query)"
  shows "searchBusStation fetch query =
     (ShowStatus MsgSearching SevInfo # warnings fetch (searches query)
        @ [ShowStatus MsgNoStations SevWarning], [])"
  unfolding searchBusStation_def searchLoop_nothing [OF assms] by simp

lemma search_ends:
  "\<exists>shown results m t. searchBusStation fetch query = (shown @ [ShowStatus m t], results) \<and>
     (t = SevError \<longrightarrow> results = []) \<and> length results \<le> 10"
proof -
  obtain allResults shown where
    loop: "searchLoop fetch (searches query) ([], [ShowStatus MsgSearching SevInfo])
      = (allResults, shown)"
    by (cases "searchLoop fetch (searches query) ([], [ShowStatus MsgSearching SevInfo])")
  show ?thesis
  proof (cases "filterResults (removeDuplicates [] allResults)")
    case None
    have "searchBusStation fetch query =
        ((shown @ [ConsoleError TypeError]) @ [ShowStatus MsgSearchError SevError], [])"
      unfolding searchBusStation_def loop by (simp add: None)
    then show ?thesis by (intro exI [where x = "shown @ [ConsoleError TypeError]"]) force
  next
    case (Some transit)
    show ?thesis
      unfolding searchBusStation_def loop by (simp add: Some Let_def)
  qed
qed

text \<open>
  Claim C8. For every query the search returns a list and ends with a message on the
  status line; where that message is an error, the list is empty. When every request
  fails in transport, or when no request brings a result, the search returns the empty
  list, and what it shows is the notice that it is searching and then one warning that
  no station was found (with a console warning for each request that threw): no error.
\<close>

theorem search_never_fails:
  "(\<exists>shown results m t. searchBusStation fetch query = (shown @ [ShowStatus m t], results) \<and>
      (t = SevError \<longrightarrow> results = [])) \<and>
   (list_all (\<lambda>q. transportFails (fetch q)) (searches query) \<or>
    list_all (\<lambda>q. bringsNothing (fetch q)) (searches query) \<longrightarrow>
      searchBusStation fetch query =
        (ShowStatus MsgSearching SevInfo # warnings fetch (searches query)
           @ [ShowStatus MsgNoStations SevWarning], []))"
proof (intro conjI impI)
  show "\<exists>shown results m t. searchBusStation fetch query = (shown @ [ShowStatus m t], results) \<and>
      (t = SevError \<longrightarrow> results = [])"
    using search_ends [of fetch query] by blast
next
  assume "list_all (\<lambda>q. transportFails (fetch q)) (searches query) \<or>
    list_all (\<lambda>q. bringsNothing (fetch q)) (searches query)"
  then have "list_all (\<lambda>q. bringsNothing (fetch q)) (searches query)"
    by (auto simp: list_all_iff transportFails_bringsNothing)
  then show "searchBusStation fetch query =
        (ShowStatus MsgSearching SevInfo # warnings fetch (searches query)
           @ [ShowStatus MsgNoStations SevWarning], [])"
    by (rule search_nothing)
qed

theorem search_never_fails_witness:
  "list_all (\<lambda>q. transportFails (downFetch q)) (searches ''Arlozorov'') \<and>
   searchBusStation downFetch ''Arlozorov'' =
     (ShowStatus MsgSearching SevInfo # map ConsoleWarn (searches ''Arlozorov'')
        @ [ShowStatus MsgNoStations SevWarning], []) \<and>
   list_all (\<lambda>q. bringsNothing (emptyFetch q)) (searches ''Arlozorov'') \<and>
   searchBusStation emptyFetch ''Arlozorov'' =
     ([ShowStatus MsgSearching SevInfo, ShowStatus MsgNoStations SevWarning], [])"
proof -
  have down: "list_all (\<lambda>q. transportFails (downFetch q)) (searches ''Arlozorov'')"
    by (simp add: transportFails_def downFetch_def list_all_iff)
  have none: "list_all (\<lambda>q. bringsNothing (emptyFetch q)) (searches ''Arlozorov'')"
    by (simp add: bringsNothing_def emptyFetch_def list_all_iff)
  from search_never_fails [of downFetch "''Arlozorov''"] down
  have "searchBusStation downFetch ''Arlozorov'' =
     (ShowStatus MsgSearching SevInfo # warnings downFetch (searches ''Arlozorov'')
        @ [ShowStatus MsgNoStations SevWarning], [])"
    by blast
  moreover have
    "warnings downFetch (searches ''Arlozorov'') = map ConsoleWarn (searches ''Arlozorov'')"
    by (simp add: warnings_def downFetch_def)
  moreover from search_never_fails [of emptyFetch "''Arlozorov''"] none
  have "searchBusStation emptyFetch ''Arlozorov'' =
     (ShowStatus MsgSearching SevInfo # warnings emptyFetch (searches ''Arlozorov'')
        @ [ShowStatus MsgNoStations SevWarning], [])"
    by blast
  moreover have "warnings emptyFetch (searches ''Arlozorov'') = []"
    by (simp add: warnings_def emptyFetch_def)
  ultimately show ?thesis
    using down none by simp
qed

end
